theory Spec2Isabelle
  imports Main
begin

section \<open>The path registry of the super-manager (configuration_paths.py)\<close>

text \<open>
  The module \<^verbatim>\<open>shared/configuration_paths.py\<close> computes, when it is imported, a
  fixed set of named path strings from a few environment variables, stores some constant
  lists, and exports one function, \<^verbatim>\<open>find_servers_yaml\<close>, that probes the filesystem.

  The module reads two pieces of ambient state: the process environment
  (\<^verbatim>\<open>os.environ\<close>) and the filesystem (\<^verbatim>\<open>os.path.exists\<close>). Both are made
  explicit as the fields of a \<open>world\<close>; no statement of the module writes to either,
  so every operation is a function that reads the world and returns a value.
\<close>

subsection \<open>The world: environment and filesystem\<close>

type_synonym environment = "string \<rightharpoonup> string"

record world =
  environ :: environment
  files :: "string set"

text \<open>
  \<^verbatim>\<open>os.environ.get(k)\<close> is the lookup \<open>environ w k\<close> (\<open>None\<close> when the variable is
  unset); \<^verbatim>\<open>os.environ.get(k, d)\<close> returns the default \<open>d\<close> for an unset variable only.
\<close>

definition environ_get :: "world \<Rightarrow> string \<Rightarrow> string option" where
  "environ_get w k = environ w k"

definition environ_get_default :: "world \<Rightarrow> string \<Rightarrow> string \<Rightarrow> string" where
  "environ_get_default w k d = (case environ w k of None \<Rightarrow> d | Some v \<Rightarrow> v)"

text \<open>
  Python's \<^verbatim>\<open>x or y\<close> where \<open>x\<close> is \<^verbatim>\<open>None\<close> or a string: \<open>x\<close> is falsy when it
  is \<^verbatim>\<open>None\<close> and also when it is the empty string, and then the value is \<open>y\<close>.
\<close>

definition py_or :: "string option \<Rightarrow> string \<Rightarrow> string" where
  "py_or x y = (case x of None \<Rightarrow> y | Some v \<Rightarrow> if v = [] then y else v)"

text \<open>
  \<^verbatim>\<open>os.path.exists(p)\<close> returns a boolean and raises for no string (an operating
  system error is reported as \<^verbatim>\<open>False\<close>). \<open>files w\<close> is the set of path strings for
  which it answers \<^verbatim>\<open>True\<close>.
\<close>

definition os_path_exists :: "world \<Rightarrow> string \<Rightarrow> bool" where
  "os_path_exists w p = (p \<in> files w)"

subsection \<open>Joining path segments\<close>

text \<open>
  \<^verbatim>\<open>os.path.join\<close> belongs to Python's standard library, not to this repository. The
  model is the POSIX implementation (\<^verbatim>\<open>posixpath.join\<close>, separator \<^verbatim>\<open>/\<close>), the one the
  specification's examples use: starting from the first argument, a segment that begins
  with the separator replaces the path built so far; otherwise the segment is appended,
  after a separator unless the path so far is empty or already ends with one.
\<close>

definition startswith_sep :: "string \<Rightarrow> bool" where
  "startswith_sep b = (case b of [] \<Rightarrow> False | c # _ \<Rightarrow> c = CHR ''/'')"

definition endswith_sep :: "string \<Rightarrow> bool" where
  "endswith_sep p = (p \<noteq> [] \<and> last p = CHR ''/'')"

definition join_step :: "string \<Rightarrow> string \<Rightarrow> string" where
  "join_step path b =
     (if startswith_sep b then b
      else if path = [] \<or> endswith_sep path then path @ b
      else path @ ''/'' @ b)"

definition os_path_join :: "string \<Rightarrow> string list \<Rightarrow> string" where
  "os_path_join a p = foldl join_step a p"

text \<open>
  The separator that joining puts between a base \<open>H\<close> and a relative segment: none when
  \<open>H\<close> is empty or already ends with the separator, one \<^verbatim>\<open>/\<close> otherwise.
\<close>

definition join_sep :: "string \<Rightarrow> string" where
  "join_sep H = (if H = [] \<or> endswith_sep H then [] else ''/'')"

subsection \<open>The module's namespace\<close>

text \<open>
  One field for each name the module binds at top level, in the order of the source. The
  private name \<^verbatim>\<open>_MCP_DIR\<close> is the field \<open>MCP_DIR_private\<close>.
\<close>

record module =
  HOME :: string
  CLAUDE_DIR :: string
  SUPER_MANAGER_DIR :: string
  REGISTRIES_DIR :: string
  INSTRUCTIONS_BASE :: string
  INSTRUCTIONS_DIR :: string
  INSTRUCTIONS_BACKUP_DIR :: string
  INSTRUCTIONS_REPOS_DIR :: string
  INSTRUCTIONS_REPOS_CONFIG :: string
  LOGS_DIR :: string
  REPORTS_DIR :: string
  ARCHIVE_DIR :: string
  TESTS_DIR :: string
  CREDENTIALS_DIR :: string
  CONFIG_DIR :: string
  CONFIG_REPOS_DIR :: string
  CONFIG_BACKUPS_DIR :: string
  CONFIG_REPOS_JSON :: string
  CONFIG_INSTALLED_JSON :: string
  CONFIG_PENDING_JSON :: string
  DEFAULT_CONFIG_REPO :: string
  HOOK_REGISTRY :: string
  SKILL_REGISTRY :: string
  CONFIG_HASH_FILE :: string
  CREDENTIAL_REGISTRY :: string
  CONFIG_REPORT :: string
  SETTINGS_JSON :: string
  HOOKS_DIR :: string
  GLOBAL_SKILLS_DIR :: string
  MCP_SERVERS_YAML_PATHS :: "string list"
  SKILL_MGR_CLI :: string
  VALID_HOOK_EVENTS :: "string list"
  MCP_DIR_private :: string
  KNOWN_ENV_FILES :: "(string \<times> string) list"
  SECRET_PATTERNS :: "string list"

text \<open>
  Executing the module body, top to bottom. \<^verbatim>\<open>MCP_SERVERS_YAML_PATHS\<close> is bound twice:
  first to the three candidates, then to the comprehension that keeps the truthy
  (non-empty) ones.
\<close>

definition module_init :: "world \<Rightarrow> module" where
  "module_init w =
    (let home = py_or (environ_get w ''HOME'') (environ_get_default w ''USERPROFILE'' '''');
         claude_dir = os_path_join home [''.claude''];
         super_manager_dir = os_path_join claude_dir [''super-manager''];
         registries_dir = os_path_join super_manager_dir [''registries''];
         instructions_base = os_path_join claude_dir [''instructions''];
         instructions_dir = instructions_base;
         reports_dir = os_path_join super_manager_dir [''reports''];
         credentials_dir = os_path_join super_manager_dir [''credentials''];
         config_dir = os_path_join super_manager_dir [''config''];
         global_skills_dir = os_path_join claude_dir [''skills''];
         mcp_servers_yaml_paths =
           [environ_get_default w ''MCP_SERVERS_YAML'' '''',
            os_path_join home [''mcp'', ''mcp-manager'', ''servers.yaml''],
            os_path_join registries_dir [''servers.yaml'']]
     in \<lparr>HOME = home,
         CLAUDE_DIR = claude_dir,
         SUPER_MANAGER_DIR = super_manager_dir,
         REGISTRIES_DIR = registries_dir,
         INSTRUCTIONS_BASE = instructions_base,
         INSTRUCTIONS_DIR = instructions_dir,
         INSTRUCTIONS_BACKUP_DIR = os_path_join instructions_base [''backups''],
         INSTRUCTIONS_REPOS_DIR = os_path_join instructions_base [''repos''],
         INSTRUCTIONS_REPOS_CONFIG = os_path_join instructions_base [''repos.json''],
         LOGS_DIR = os_path_join super_manager_dir [''logs''],
         REPORTS_DIR = reports_dir,
         ARCHIVE_DIR = os_path_join super_manager_dir [''archive''],
         TESTS_DIR = os_path_join super_manager_dir [''tests''],
         CREDENTIALS_DIR = credentials_dir,
         CONFIG_DIR = config_dir,
         CONFIG_REPOS_DIR = os_path_join config_dir [''repos''],
         CONFIG_BACKUPS_DIR = os_path_join config_dir [''backups''],
         CONFIG_REPOS_JSON = os_path_join config_dir [''repos.json''],
         CONFIG_INSTALLED_JSON = os_path_join config_dir [''installed.json''],
         CONFIG_PENDING_JSON = os_path_join config_dir [''pending.json''],
         DEFAULT_CONFIG_REPO = ''grobomo/claude-code-defaults'',
         HOOK_REGISTRY = os_path_join registries_dir [''hook-registry.json''],
         SKILL_REGISTRY = os_path_join registries_dir [''skill-registry.json''],
         CONFIG_HASH_FILE = os_path_join registries_dir [''last-known-config-hash.txt''],
         CREDENTIAL_REGISTRY = os_path_join credentials_dir [''credential-registry.json''],
         CONFIG_REPORT = os_path_join reports_dir [''config-report.md''],
         SETTINGS_JSON = os_path_join claude_dir [''settings.json''],
         HOOKS_DIR = os_path_join claude_dir [''hooks''],
         GLOBAL_SKILLS_DIR = global_skills_dir,
         MCP_SERVERS_YAML_PATHS = filter (\<lambda>p. p \<noteq> []) mcp_servers_yaml_paths,
         SKILL_MGR_CLI = os_path_join global_skills_dir [''skill-marketplace'', ''cli'', ''skill-mgr''],
         VALID_HOOK_EVENTS =
           [''SessionStart'', ''SessionEnd'', ''UserPromptSubmit'',
            ''PreToolUse'', ''PostToolUse'', ''PreCompact'',
            ''Stop'', ''SubAgentSop'', ''PermissionRequest''],
         MCP_DIR_private = environ_get_default w ''MCP_DIR'' (os_path_join home [''mcp'']),
         KNOWN_ENV_FILES = [],
         SECRET_PATTERNS = [''TOKEN'', ''KEY'', ''SECRET'', ''PASSWORD'', ''PASS'', ''AUTH'']\<rparr>)"

subsection \<open>Looking up the first existing servers.yaml\<close>

text \<open>
  \<^verbatim>\<open>find_servers_yaml()\<close> takes no argument: it iterates over the module's current
  \<^verbatim>\<open>MCP_SERVERS_YAML_PATHS\<close> and asks the filesystem about each path in turn. The
  \<^verbatim>\<open>for\<close> loop is the recursion \<open>find_servers_yaml_loop\<close>; falling out of the loop
  returns \<^verbatim>\<open>None\<close>.
\<close>

fun find_servers_yaml_loop :: "world \<Rightarrow> string list \<Rightarrow> string option" where
  "find_servers_yaml_loop w [] = None"
| "find_servers_yaml_loop w (path # rest) =
     (if os_path_exists w path then Some path else find_servers_yaml_loop w rest)"

definition find_servers_yaml :: "module \<Rightarrow> world \<Rightarrow> string option" where
  "find_servers_yaml m w = find_servers_yaml_loop w (MCP_SERVERS_YAML_PATHS m)"


subsection \<open>Example worlds\<close>

text \<open>A POSIX login: only \<^verbatim>\<open>HOME\<close> is set, and no servers.yaml exists anywhere.\<close>

definition world_home_u :: world where
  "world_home_u = \<lparr>environ = [''HOME'' \<mapsto> ''/u''], files = {}\<rparr>"

text \<open>Nothing is set in the environment and the filesystem is empty.\<close>

definition world_bare :: world where
  "world_bare = \<lparr>environ = Map.empty, files = {}\<rparr>"

text \<open>
  \<^verbatim>\<open>HOME\<close> is present but empty, \<^verbatim>\<open>USERPROFILE\<close> names a directory.
\<close>

definition world_empty_home :: world where
  "world_empty_home =
     \<lparr>environ = [''HOME'' \<mapsto> [], ''USERPROFILE'' \<mapsto> ''/home/u''], files = {}\<rparr>"

text \<open>
  The override is set, so the search list has three candidates, and only the second of
  them exists.
\<close>

definition world_override :: world where
  "world_override =
     \<lparr>environ = [''HOME'' \<mapsto> ''/u'', ''MCP_SERVERS_YAML'' \<mapsto> ''/etc/servers.yaml''],
      files = {''/u/mcp/mcp-manager/servers.yaml''}\<rparr>"

section \<open>Properties\<close>

subsection \<open>Facts about joining\<close>

lemma startswith_sep_Nil [simp]: "startswith_sep [] = False"
  by (simp add: startswith_sep_def)

lemma startswith_sep_Cons [simp]: "startswith_sep (c # s) = (c = CHR ''/'')"
  by (simp add: startswith_sep_def)

lemma endswith_sep_Cons [simp]:
  "endswith_sep (c # s) = (if s = [] then c = CHR ''/'' else endswith_sep s)"
  by (simp add: endswith_sep_def)

lemma endswith_sep_append [simp]: "s \<noteq> [] \<Longrightarrow> endswith_sep (p @ s) = endswith_sep s"
  by (simp add: endswith_sep_def)

lemma join_sep_Nil [simp]: "join_sep [] = []"
  by (simp add: join_sep_def)

lemma join_sep_Cons [simp]:
  "join_sep (c # s) = (if endswith_sep (c # s) then [] else ''/'')"
  by (simp add: join_sep_def)

lemma join_sep_append [simp]: "s \<noteq> [] \<Longrightarrow> join_sep (p @ s) = join_sep s"
  by (simp add: join_sep_def)

text \<open>A relative segment is appended to the base, after the separator if one is needed.\<close>

lemma os_path_join_relative [simp]:
  "\<not> startswith_sep b \<Longrightarrow> os_path_join H [b] = H @ join_sep H @ b"
  by (simp add: os_path_join_def join_step_def join_sep_def)

lemma os_path_join_segments [simp]:
  "os_path_join a (b # c # p) = os_path_join (os_path_join a [b]) (c # p)"
  by (simp add: os_path_join_def)

subsection \<open>The namespace in closed form\<close>

text \<open>
  Every path the module derives, written out as the resolved base, the separator the first
  join inserts, and a literal relative suffix.
\<close>

lemma module_init_closed_form:
  "module_init w =
    (let H = py_or (environ w ''HOME'') (environ_get_default w ''USERPROFILE'' []);
         s = join_sep H
     in \<lparr>HOME = H,
         CLAUDE_DIR = H @ s @ ''.claude'',
         SUPER_MANAGER_DIR = H @ s @ ''.claude/super-manager'',
         REGISTRIES_DIR = H @ s @ ''.claude/super-manager/registries'',
         INSTRUCTIONS_BASE = H @ s @ ''.claude/instructions'',
         INSTRUCTIONS_DIR = H @ s @ ''.claude/instructions'',
         INSTRUCTIONS_BACKUP_DIR = H @ s @ ''.claude/instructions/backups'',
         INSTRUCTIONS_REPOS_DIR = H @ s @ ''.claude/instructions/repos'',
         INSTRUCTIONS_REPOS_CONFIG = H @ s @ ''.claude/instructions/repos.json'',
         LOGS_DIR = H @ s @ ''.claude/super-manager/logs'',
         REPORTS_DIR = H @ s @ ''.claude/super-manager/reports'',
         ARCHIVE_DIR = H @ s @ ''.claude/super-manager/archive'',
         TESTS_DIR = H @ s @ ''.claude/super-manager/tests'',
         CREDENTIALS_DIR = H @ s @ ''.claude/super-manager/credentials'',
         CONFIG_DIR = H @ s @ ''.claude/super-manager/config'',
         CONFIG_REPOS_DIR = H @ s @ ''.claude/super-manager/config/repos'',
         CONFIG_BACKUPS_DIR = H @ s @ ''.claude/super-manager/config/backups'',
         CONFIG_REPOS_JSON = H @ s @ ''.claude/super-manager/config/repos.json'',
         CONFIG_INSTALLED_JSON = H @ s @ ''.claude/super-manager/config/installed.json'',
         CONFIG_PENDING_JSON = H @ s @ ''.claude/super-manager/config/pending.json'',
         DEFAULT_CONFIG_REPO = ''grobomo/claude-code-defaults'',
         HOOK_REGISTRY = H @ s @ ''.claude/super-manager/registries/hook-registry.json'',
         SKILL_REGISTRY = H @ s @ ''.claude/super-manager/registries/skill-registry.json'',
         CONFIG_HASH_FILE =
           H @ s @ ''.claude/super-manager/registries/last-known-config-hash.txt'',
         CREDENTIAL_REGISTRY =
           H @ s @ ''.claude/super-manager/credentials/credential-registry.json'',
         CONFIG_REPORT = H @ s @ ''.claude/super-manager/reports/config-report.md'',
         SETTINGS_JSON = H @ s @ ''.claude/settings.json'',
         HOOKS_DIR = H @ s @ ''.claude/hooks'',
         GLOBAL_SKILLS_DIR = H @ s @ ''.claude/skills'',
         MCP_SERVERS_YAML_PATHS =
           (case environ w ''MCP_SERVERS_YAML'' of
              None \<Rightarrow> []
            | Some v \<Rightarrow> if v = [] then [] else [v]) @
           [H @ s @ ''mcp/mcp-manager/servers.yaml'',
            H @ s @ ''.claude/super-manager/registries/servers.yaml''],
         SKILL_MGR_CLI = H @ s @ ''.claude/skills/skill-marketplace/cli/skill-mgr'',
         VALID_HOOK_EVENTS =
           [''SessionStart'', ''SessionEnd'', ''UserPromptSubmit'',
            ''PreToolUse'', ''PostToolUse'', ''PreCompact'',
            ''Stop'', ''SubAgentSop'', ''PermissionRequest''],
         MCP_DIR_private =
           (case environ w ''MCP_DIR'' of None \<Rightarrow> H @ s @ ''mcp'' | Some v \<Rightarrow> v),
         KNOWN_ENV_FILES = [],
         SECRET_PATTERNS = [''TOKEN'', ''KEY'', ''SECRET'', ''PASSWORD'', ''PASS'', ''AUTH'']\<rparr>)"
  by (simp add: module_init_def Let_def environ_get_def environ_get_default_def
      split: option.split)

subsection \<open>The lookup loop\<close>

lemma find_servers_yaml_loop_first:
  "i < length ps \<Longrightarrow> os_path_exists w (ps ! i) \<Longrightarrow>
   (\<forall>j<i. \<not> os_path_exists w (ps ! j)) \<Longrightarrow>
   find_servers_yaml_loop w ps = Some (ps ! i)"
proof (induction ps arbitrary: i)
  case Nil
  then show ?case by simp
next
  case (Cons p ps)
  show ?case
  proof (cases i)
    case 0
    with Cons.prems show ?thesis by simp
  next
    case (Suc k)
    from Cons.prems(3) Suc have head: "\<not> os_path_exists w p" by auto
    from Cons.prems Suc have "k < length ps" "os_path_exists w (ps ! k)" by simp_all
    moreover from Cons.prems(3) Suc have "\<forall>j<k. \<not> os_path_exists w (ps ! j)" by auto
    ultimately have "find_servers_yaml_loop w ps = Some (ps ! k)" by (rule Cons.IH)
    with head Suc show ?thesis by simp
  qed
qed

lemma find_servers_yaml_loop_none:
  "(\<forall>p\<in>set ps. \<not> os_path_exists w p) \<Longrightarrow> find_servers_yaml_loop w ps = None"
  by (induction ps) simp_all

lemma find_servers_yaml_loop_sound:
  "find_servers_yaml_loop w ps = Some p \<Longrightarrow> p \<in> set ps \<and> os_path_exists w p"
  by (induction ps) (auto split: if_splits)

section \<open>The claims\<close>

text \<open>
  C1. Whatever list of candidates the module holds, \<^verbatim>\<open>find_servers_yaml\<close> returns the
  first candidate, in list order, that exists on the filesystem, and returns the very
  string of the list: if the candidate at index \<open>i\<close> exists and none before it does, the
  result is that candidate, and a returned path is always an existing member of the list.
  In particular, over three candidates of which only the second exists, the result is the
  second candidate.
\<close>

theorem find_servers_yaml_first_existing:
  "(i < length (MCP_SERVERS_YAML_PATHS m) \<and>
    os_path_exists w (MCP_SERVERS_YAML_PATHS m ! i) \<and>
    (\<forall>j<i. \<not> os_path_exists w (MCP_SERVERS_YAML_PATHS m ! j))
      \<longrightarrow> find_servers_yaml m w = Some (MCP_SERVERS_YAML_PATHS m ! i)) \<and>
   (find_servers_yaml m w = Some p
      \<longrightarrow> p \<in> set (MCP_SERVERS_YAML_PATHS m) \<and> os_path_exists w p) \<and>
   (MCP_SERVERS_YAML_PATHS m = [a, b, c] \<and>
    \<not> os_path_exists w a \<and> os_path_exists w b \<and> \<not> os_path_exists w c
      \<longrightarrow> find_servers_yaml m w = Some b)"
proof (intro conjI impI)
  assume "i < length (MCP_SERVERS_YAML_PATHS m) \<and>
    os_path_exists w (MCP_SERVERS_YAML_PATHS m ! i) \<and>
    (\<forall>j<i. \<not> os_path_exists w (MCP_SERVERS_YAML_PATHS m ! j))"
  then show "find_servers_yaml m w = Some (MCP_SERVERS_YAML_PATHS m ! i)"
    unfolding find_servers_yaml_def by (intro find_servers_yaml_loop_first) simp_all
next
  assume "find_servers_yaml m w = Some p"
  then show "p \<in> set (MCP_SERVERS_YAML_PATHS m)" and "os_path_exists w p"
    unfolding find_servers_yaml_def by (simp_all add: find_servers_yaml_loop_sound)
next
  assume "MCP_SERVERS_YAML_PATHS m = [a, b, c] \<and>
    \<not> os_path_exists w a \<and> os_path_exists w b \<and> \<not> os_path_exists w c"
  then show "find_servers_yaml m w = Some b"
    by (simp add: find_servers_yaml_def)
qed

theorem find_servers_yaml_first_existing_witness:
  "MCP_SERVERS_YAML_PATHS (module_init world_override) =
     [''/etc/servers.yaml'', ''/u/mcp/mcp-manager/servers.yaml'',
      ''/u/.claude/super-manager/registries/servers.yaml''] \<and>
   \<not> os_path_exists world_override ''/etc/servers.yaml'' \<and>
   os_path_exists world_override ''/u/mcp/mcp-manager/servers.yaml'' \<and>
   \<not> os_path_exists world_override ''/u/.claude/super-manager/registries/servers.yaml'' \<and>
   find_servers_yaml (module_init world_override) world_override =
     Some ''/u/mcp/mcp-manager/servers.yaml''"
  using find_servers_yaml_first_existing
    [of 1 "module_init world_override" world_override
        "''/u/mcp/mcp-manager/servers.yaml''"
        "''/etc/servers.yaml''" "''/u/mcp/mcp-manager/servers.yaml''"
        "''/u/.claude/super-manager/registries/servers.yaml''"]
  by (simp add: module_init_closed_form world_override_def os_path_exists_def
      py_or_def environ_get_default_def)

text \<open>
  C2. When no candidate of the list exists on the filesystem, \<^verbatim>\<open>find_servers_yaml\<close>
  returns \<^verbatim>\<open>None\<close>. The lookup has no exceptional outcome at all: the model is a total
  function into \<open>string option\<close>, because the loop only calls \<^verbatim>\<open>os.path.exists\<close>, which
  answers \<^verbatim>\<open>False\<close> instead of raising.
\<close>

theorem find_servers_yaml_none_exist:
  "(\<forall>p\<in>set (MCP_SERVERS_YAML_PATHS m). \<not> os_path_exists w p)
     \<Longrightarrow> find_servers_yaml m w = None"
  unfolding find_servers_yaml_def by (rule find_servers_yaml_loop_none)

theorem find_servers_yaml_none_exist_witness:
  "MCP_SERVERS_YAML_PATHS (module_init world_home_u) =
     [''/u/mcp/mcp-manager/servers.yaml'',
      ''/u/.claude/super-manager/registries/servers.yaml''] \<and>
   find_servers_yaml (module_init world_home_u) world_home_u = None"
  using find_servers_yaml_none_exist [of "module_init world_home_u" world_home_u]
  by (simp add: module_init_closed_form world_home_u_def os_path_exists_def
      py_or_def environ_get_default_def)

text \<open>
  C3. The search list for servers.yaml is, in this order: the value of
  \<^verbatim>\<open>MCP_SERVERS_YAML\<close> when that variable is set and not empty, then the file
  \<^verbatim>\<open>mcp/mcp-manager/servers.yaml\<close> joined to the home directory, then \<^verbatim>\<open>servers.yaml\<close>
  inside the registries directory. It is the list of the three candidates with the empty
  strings filtered out, so an unset (or empty) override leaves exactly the two derived
  candidates, in that order.
\<close>

theorem MCP_SERVERS_YAML_PATHS_search_order:
  "let m = module_init w; H = HOME m;
       home_yaml = H @ join_sep H @ ''mcp/mcp-manager/servers.yaml'';
       registries_yaml = REGISTRIES_DIR m @ ''/servers.yaml''
   in MCP_SERVERS_YAML_PATHS m =
        filter (\<lambda>p. p \<noteq> [])
          [environ_get_default w ''MCP_SERVERS_YAML'' [], home_yaml, registries_yaml] \<and>
      home_yaml = os_path_join H [''mcp'', ''mcp-manager'', ''servers.yaml''] \<and>
      registries_yaml = os_path_join (REGISTRIES_DIR m) [''servers.yaml''] \<and>
      (environ w ''MCP_SERVERS_YAML'' = Some v \<and> v \<noteq> []
         \<longrightarrow> MCP_SERVERS_YAML_PATHS m = [v, home_yaml, registries_yaml]) \<and>
      (environ w ''MCP_SERVERS_YAML'' = None \<or> environ w ''MCP_SERVERS_YAML'' = Some []
         \<longrightarrow> MCP_SERVERS_YAML_PATHS m = [home_yaml, registries_yaml])"
  by (auto simp add: module_init_closed_form Let_def environ_get_default_def
      split: option.splits)

theorem MCP_SERVERS_YAML_PATHS_search_order_witness:
  "MCP_SERVERS_YAML_PATHS (module_init world_override) =
     [''/etc/servers.yaml'', ''/u/mcp/mcp-manager/servers.yaml'',
      ''/u/.claude/super-manager/registries/servers.yaml''] \<and>
   MCP_SERVERS_YAML_PATHS (module_init world_home_u) =
     [''/u/mcp/mcp-manager/servers.yaml'',
      ''/u/.claude/super-manager/registries/servers.yaml'']"
  using MCP_SERVERS_YAML_PATHS_search_order [of world_override "''/etc/servers.yaml''"]
    MCP_SERVERS_YAML_PATHS_search_order [of world_home_u]
  by (simp add: module_init_closed_form world_override_def world_home_u_def
      py_or_def environ_get_default_def)

text \<open>
  C4, as the code has it. The base directory is the value of \<^verbatim>\<open>HOME\<close> when that
  variable is set to a non-empty string. When \<^verbatim>\<open>HOME\<close> is unset, and also when it is set
  to the empty string, the base directory is the value of \<^verbatim>\<open>USERPROFILE\<close>, or the empty
  string if that variable is unset: the source combines the two lookups with \<^verbatim>\<open>or\<close>,
  for which an empty string counts as false.
\<close>

theorem HOME_resolution:
  "(environ w ''HOME'' = Some h \<and> h \<noteq> [] \<longrightarrow> HOME (module_init w) = h) \<and>
   (environ w ''HOME'' = None \<or> environ w ''HOME'' = Some [] \<longrightarrow>
      HOME (module_init w) =
        (case environ w ''USERPROFILE'' of None \<Rightarrow> [] | Some u \<Rightarrow> u))"
  by (auto simp add: module_init_closed_form Let_def py_or_def environ_get_default_def)

theorem HOME_resolution_witness:
  "HOME (module_init world_home_u) = ''/u'' \<and>
   HOME (module_init world_empty_home) = ''/home/u'' \<and>
   HOME (module_init world_bare) = []"
  using HOME_resolution [of world_home_u "''/u''"] HOME_resolution [of world_empty_home]
    HOME_resolution [of world_bare]
  by (simp add: world_home_u_def world_empty_home_def world_bare_def)

text \<open>
  C4, as the specification has it, fails: with \<^verbatim>\<open>HOME\<close> present and empty and
  \<^verbatim>\<open>USERPROFILE\<close> set, the base directory is the value of \<^verbatim>\<open>USERPROFILE\<close>, not the
  (empty) value of \<^verbatim>\<open>HOME\<close>.
\<close>

theorem HOME_present_but_empty_counterexample:
  "environ world_empty_home ''HOME'' = Some [] \<and>
   environ world_empty_home ''USERPROFILE'' = Some ''/home/u'' \<and>
   HOME (module_init world_empty_home) = ''/home/u'' \<and>
   HOME (module_init world_empty_home) \<noteq> []"
  by (simp add: module_init_closed_form world_empty_home_def py_or_def
      environ_get_default_def)

text \<open>
  C5, as the code has it. Let \<open>H\<close> be the resolved base directory, the module's
  \<^verbatim>\<open>HOME\<close> (C4 says which variable it comes from). Every derived path is \<open>H\<close>, then the
  separator of the first join (a \<^verbatim>\<open>/\<close>, unless \<open>H\<close> is empty or already ends with
  one), then a fixed literal relative suffix; the two derived candidates of the search
  list have this form too, and so has \<^verbatim>\<open>_MCP_DIR\<close> when \<^verbatim>\<open>MCP_DIR\<close> is unset. In
  particular, when \<^verbatim>\<open>HOME\<close> is \<^verbatim>\<open>/u\<close> the hooks path is \<^verbatim>\<open>/u/.claude/hooks\<close>.
\<close>

theorem derived_paths_from_base:
  "let m = module_init w; H = HOME m; s = join_sep H
   in CLAUDE_DIR m = H @ s @ ''.claude'' \<and>
      SUPER_MANAGER_DIR m = H @ s @ ''.claude/super-manager'' \<and>
      REGISTRIES_DIR m = H @ s @ ''.claude/super-manager/registries'' \<and>
      INSTRUCTIONS_BASE m = H @ s @ ''.claude/instructions'' \<and>
      INSTRUCTIONS_DIR m = H @ s @ ''.claude/instructions'' \<and>
      INSTRUCTIONS_BACKUP_DIR m = H @ s @ ''.claude/instructions/backups'' \<and>
      INSTRUCTIONS_REPOS_DIR m = H @ s @ ''.claude/instructions/repos'' \<and>
      INSTRUCTIONS_REPOS_CONFIG m = H @ s @ ''.claude/instructions/repos.json'' \<and>
      LOGS_DIR m = H @ s @ ''.claude/super-manager/logs'' \<and>
      REPORTS_DIR m = H @ s @ ''.claude/super-manager/reports'' \<and>
      ARCHIVE_DIR m = H @ s @ ''.claude/super-manager/archive'' \<and>
      TESTS_DIR m = H @ s @ ''.claude/super-manager/tests'' \<and>
      CREDENTIALS_DIR m = H @ s @ ''.claude/super-manager/credentials'' \<and>
      CONFIG_DIR m = H @ s @ ''.claude/super-manager/config'' \<and>
      CONFIG_REPOS_DIR m = H @ s @ ''.claude/super-manager/config/repos'' \<and>
      CONFIG_BACKUPS_DIR m = H @ s @ ''.claude/super-manager/config/backups'' \<and>
      CONFIG_REPOS_JSON m = H @ s @ ''.claude/super-manager/config/repos.json'' \<and>
      CONFIG_INSTALLED_JSON m = H @ s @ ''.claude/super-manager/config/installed.json'' \<and>
      CONFIG_PENDING_JSON m = H @ s @ ''.claude/super-manager/config/pending.json'' \<and>
      HOOK_REGISTRY m = H @ s @ ''.claude/super-manager/registries/hook-registry.json'' \<and>
      SKILL_REGISTRY m = H @ s @ ''.claude/super-manager/registries/skill-registry.json'' \<and>
      CONFIG_HASH_FILE m =
        H @ s @ ''.claude/super-manager/registries/last-known-config-hash.txt'' \<and>
      CREDENTIAL_REGISTRY m =
        H @ s @ ''.claude/super-manager/credentials/credential-registry.json'' \<and>
      CONFIG_REPORT m = H @ s @ ''.claude/super-manager/reports/config-report.md'' \<and>
      SETTINGS_JSON m = H @ s @ ''.claude/settings.json'' \<and>
      HOOKS_DIR m = H @ s @ ''.claude/hooks'' \<and>
      GLOBAL_SKILLS_DIR m = H @ s @ ''.claude/skills'' \<and>
      SKILL_MGR_CLI m = H @ s @ ''.claude/skills/skill-marketplace/cli/skill-mgr'' \<and>
      H @ s @ ''mcp/mcp-manager/servers.yaml'' \<in> set (MCP_SERVERS_YAML_PATHS m) \<and>
      H @ s @ ''.claude/super-manager/registries/servers.yaml''
        \<in> set (MCP_SERVERS_YAML_PATHS m) \<and>
      (environ w ''MCP_DIR'' = None \<longrightarrow> MCP_DIR_private m = H @ s @ ''mcp'') \<and>
      (environ w ''HOME'' = Some ''/u'' \<longrightarrow> HOOKS_DIR m = ''/u/.claude/hooks'')"
  by (simp add: module_init_closed_form Let_def py_or_def)

theorem derived_paths_from_base_witness:
  "environ world_home_u ''MCP_DIR'' = None \<and>
   environ world_home_u ''HOME'' = Some ''/u'' \<and>
   MCP_DIR_private (module_init world_home_u) = ''/u/mcp'' \<and>
   HOOKS_DIR (module_init world_home_u) = ''/u/.claude/hooks''"
  using derived_paths_from_base [of world_home_u]
  by (simp add: Let_def world_home_u_def module_init_closed_form py_or_def)

text \<open>
  C5, as the specification has it, fails. Read with \<open>H\<close> the value of the variable
  \<^verbatim>\<open>HOME\<close>: when that value is empty and \<^verbatim>\<open>USERPROFILE\<close> is set, the hooks path is built
  on \<^verbatim>\<open>USERPROFILE\<close>, so it is not the empty \<open>H\<close> followed by the suffix of the hooks
  path, with or without a leading separator.
\<close>

theorem derived_paths_empty_HOME_counterexample:
  "environ world_empty_home ''HOME'' = Some [] \<and>
   HOOKS_DIR (module_init world_empty_home) = ''/home/u/.claude/hooks'' \<and>
   HOOKS_DIR (module_init world_empty_home) \<noteq> [] @ ''/.claude/hooks'' \<and>
   HOOKS_DIR (module_init world_empty_home) \<noteq> [] @ ''.claude/hooks''"
  by (simp add: module_init_closed_form world_empty_home_def py_or_def
      environ_get_default_def)

text \<open>
  C6. When neither \<^verbatim>\<open>HOME\<close> nor \<^verbatim>\<open>USERPROFILE\<close> is set, the base directory is the empty
  string and every derived path is its relative suffix alone. Initialisation has no
  exceptional outcome: \<open>module_init\<close> is a total function, because the module body only
  looks up variables with defaults and joins strings.
\<close>

theorem no_home_relative_paths:
  "environ w ''HOME'' = None \<and> environ w ''USERPROFILE'' = None \<Longrightarrow>
   (let m = module_init w
    in HOME m = [] \<and>
      CLAUDE_DIR m = ''.claude'' \<and>
      SUPER_MANAGER_DIR m = ''.claude/super-manager'' \<and>
      REGISTRIES_DIR m = ''.claude/super-manager/registries'' \<and>
      INSTRUCTIONS_BASE m = ''.claude/instructions'' \<and>
      INSTRUCTIONS_DIR m = ''.claude/instructions'' \<and>
      INSTRUCTIONS_BACKUP_DIR m = ''.claude/instructions/backups'' \<and>
      INSTRUCTIONS_REPOS_DIR m = ''.claude/instructions/repos'' \<and>
      INSTRUCTIONS_REPOS_CONFIG m = ''.claude/instructions/repos.json'' \<and>
      LOGS_DIR m = ''.claude/super-manager/logs'' \<and>
      REPORTS_DIR m = ''.claude/super-manager/reports'' \<and>
      ARCHIVE_DIR m = ''.claude/super-manager/archive'' \<and>
      TESTS_DIR m = ''.claude/super-manager/tests'' \<and>
      CREDENTIALS_DIR m = ''.claude/super-manager/credentials'' \<and>
      CONFIG_DIR m = ''.claude/super-manager/config'' \<and>
      CONFIG_REPOS_DIR m = ''.claude/super-manager/config/repos'' \<and>
      CONFIG_BACKUPS_DIR m = ''.claude/super-manager/config/backups'' \<and>
      CONFIG_REPOS_JSON m = ''.claude/super-manager/config/repos.json'' \<and>
      CONFIG_INSTALLED_JSON m = ''.claude/super-manager/config/installed.json'' \<and>
      CONFIG_PENDING_JSON m = ''.claude/super-manager/config/pending.json'' \<and>
      HOOK_REGISTRY m = ''.claude/super-manager/registries/hook-registry.json'' \<and>
      SKILL_REGISTRY m = ''.claude/super-manager/registries/skill-registry.json'' \<and>
      CONFIG_HASH_FILE m = ''.claude/super-manager/registries/last-known-config-hash.txt'' \<and>
      CREDENTIAL_REGISTRY m =
        ''.claude/super-manager/credentials/credential-registry.json'' \<and>
      CONFIG_REPORT m = ''.claude/super-manager/reports/config-report.md'' \<and>
      SETTINGS_JSON m = ''.claude/settings.json'' \<and>
      HOOKS_DIR m = ''.claude/hooks'' \<and>
      GLOBAL_SKILLS_DIR m = ''.claude/skills'' \<and>
      SKILL_MGR_CLI m = ''.claude/skills/skill-marketplace/cli/skill-mgr'' \<and>
      MCP_SERVERS_YAML_PATHS m =
        filter (\<lambda>p. p \<noteq> [])
          [environ_get_default w ''MCP_SERVERS_YAML'' [],
           ''mcp/mcp-manager/servers.yaml'',
           ''.claude/super-manager/registries/servers.yaml''] \<and>
      MCP_DIR_private m = environ_get_default w ''MCP_DIR'' ''mcp'')"
  by (simp add: module_init_closed_form Let_def py_or_def environ_get_default_def
      split: option.splits)

theorem no_home_relative_paths_witness:
  "environ world_bare ''HOME'' = None \<and> environ world_bare ''USERPROFILE'' = None \<and>
   HOME (module_init world_bare) = [] \<and>
   HOOKS_DIR (module_init world_bare) = ''.claude/hooks'' \<and>
   MCP_SERVERS_YAML_PATHS (module_init world_bare) =
     [''mcp/mcp-manager/servers.yaml'', ''.claude/super-manager/registries/servers.yaml''] \<and>
   MCP_DIR_private (module_init world_bare) = ''mcp''"
  using no_home_relative_paths [of world_bare]
  by (simp add: Let_def world_bare_def environ_get_default_def)

text \<open>
  C7. The list of valid hook events has exactly nine entries, none of them is the empty
  string, and no entry occurs twice.
\<close>

theorem VALID_HOOK_EVENTS_nine_distinct:
  "length (VALID_HOOK_EVENTS (module_init w)) = 9 \<and>
   [] \<notin> set (VALID_HOOK_EVENTS (module_init w)) \<and>
   distinct (VALID_HOOK_EVENTS (module_init w))"
  by (simp add: module_init_closed_form Let_def)

text \<open>
  C8. The secret patterns are stored as the six upper-case literals of the source, whatever
  the environment: the list is not derived from anything and no case conversion is applied
  to it. Membership is equality of strings, so \<^verbatim>\<open>TOKEN\<close> is a member and \<^verbatim>\<open>token\<close> is
  not.
\<close>

theorem SECRET_PATTERNS_case_sensitive:
  "SECRET_PATTERNS (module_init w) =
     [''TOKEN'', ''KEY'', ''SECRET'', ''PASSWORD'', ''PASS'', ''AUTH''] \<and>
   ''TOKEN'' \<in> set (SECRET_PATTERNS (module_init w)) \<and>
   ''token'' \<notin> set (SECRET_PATTERNS (module_init w))"
  by (simp add: module_init_closed_form Let_def)

text \<open>
  C9. Initialisation is a function of the environment alone. Two worlds with the same
  environment variables yield the same namespace, field for field, whatever their
  filesystems hold; replacing the filesystem of a world changes nothing of what
  initialisation computes. The existence lookup is where the filesystem comes in: there
  are two worlds with one environment for which \<^verbatim>\<open>find_servers_yaml\<close> answers
  differently.
\<close>

theorem module_init_independent_of_filesystem:
  "(environ w1 = environ w2 \<longrightarrow> module_init w1 = module_init w2) \<and>
   module_init (w\<lparr>files := F\<rparr>) = module_init w \<and>
   (\<exists>wa wb. environ wa = environ wb \<and>
      find_servers_yaml (module_init wa) wa \<noteq> find_servers_yaml (module_init wb) wb)"
proof (intro conjI impI)
  assume "environ w1 = environ w2"
  then show "module_init w1 = module_init w2"
    by (simp add: module_init_def environ_get_def environ_get_default_def)
next
  show "module_init (w\<lparr>files := F\<rparr>) = module_init w"
    by (simp add: module_init_def environ_get_def environ_get_default_def)
next
  let ?wb = "world_home_u\<lparr>files := {''/u/mcp/mcp-manager/servers.yaml''}\<rparr>"
  have "environ world_home_u = environ ?wb"
    by simp
  moreover have "find_servers_yaml (module_init world_home_u) world_home_u = None"
    by (simp add: find_servers_yaml_def module_init_closed_form world_home_u_def
        os_path_exists_def py_or_def environ_get_default_def)
  moreover have "find_servers_yaml (module_init ?wb) ?wb =
      Some ''/u/mcp/mcp-manager/servers.yaml''"
    by (simp add: find_servers_yaml_def module_init_closed_form world_home_u_def
        os_path_exists_def py_or_def environ_get_default_def)
  ultimately show "\<exists>wa wb. environ wa = environ wb \<and>
      find_servers_yaml (module_init wa) wa \<noteq> find_servers_yaml (module_init wb) wb"
    by (intro exI [of _ world_home_u] exI [of _ ?wb]) simp
qed

theorem module_init_independent_of_filesystem_witness:
  "environ world_home_u =
     environ (world_home_u\<lparr>files := {''/u/mcp/mcp-manager/servers.yaml''}\<rparr>) \<and>
   files world_home_u \<noteq>
     files (world_home_u\<lparr>files := {''/u/mcp/mcp-manager/servers.yaml''}\<rparr>) \<and>
   module_init world_home_u =
     module_init (world_home_u\<lparr>files := {''/u/mcp/mcp-manager/servers.yaml''}\<rparr>)"
  using module_init_independent_of_filesystem
    [of world_home_u "world_home_u\<lparr>files := {''/u/mcp/mcp-manager/servers.yaml''}\<rparr>"]
  by (simp add: world_home_u_def)

text \<open>
  C10. The search list is never empty, whatever the environment: the two derived
  candidates are non-empty strings even when the base directory is empty, so both survive
  the filter, and they are the last two entries of the list, in this order.
\<close>

theorem MCP_SERVERS_YAML_PATHS_never_empty:
  "let m = module_init w; H = HOME m;
       home_yaml = os_path_join H [''mcp'', ''mcp-manager'', ''servers.yaml''];
       registries_yaml = os_path_join (REGISTRIES_DIR m) [''servers.yaml'']
   in MCP_SERVERS_YAML_PATHS m \<noteq> [] \<and>
      2 \<le> length (MCP_SERVERS_YAML_PATHS m) \<and>
      home_yaml \<noteq> [] \<and> registries_yaml \<noteq> [] \<and>
      home_yaml \<in> set (MCP_SERVERS_YAML_PATHS m) \<and>
      registries_yaml \<in> set (MCP_SERVERS_YAML_PATHS m) \<and>
      drop (length (MCP_SERVERS_YAML_PATHS m) - 2) (MCP_SERVERS_YAML_PATHS m) =
        [home_yaml, registries_yaml] \<and>
      home_yaml = H @ join_sep H @ ''mcp/mcp-manager/servers.yaml'' \<and>
      registries_yaml = H @ join_sep H @ ''.claude/super-manager/registries/servers.yaml''"
  by (simp add: module_init_closed_form Let_def split: option.splits)

end
